theory Spec2Isabelle
  imports Complex_Main "HOL-Library.Sublist"
begin

section \<open>Conventions of the embedding\<close>

text \<open>
  The resume analyzer is a Python program. Its unbounded integers are modelled as
  \<^typ>\<open>int\<close> and a \<^verbatim>\<open>raise\<close> as the left summand of a sum type. A string is a
  \<^typ>\<open>string\<close>, a list of characters with the code points 0 to 255; text with other
  code points is outside the model. Floats are modelled as \<^typ>\<open>real\<close>, in exact
  arithmetic, except where a section says that it rounds to binary64; infinities and NaN
  are outside the model. Calls to \<^verbatim>\<open>print\<close> and to the logger do not influence
  any returned value and are left out. A dynamically typed argument that the code tests
  with \<^verbatim>\<open>isinstance(x, str)\<close> is a value of \<open>pyobj\<close>.
\<close>

datatype pyobj = PyStr string | PyInt int | PyNone

fun is_str :: "pyobj \<Rightarrow> bool" where
  "is_str (PyStr s) = True"
| "is_str _ = False"

fun str_of :: "pyobj \<Rightarrow> string" where
  "str_of (PyStr s) = s"
| "str_of _ = []"

datatype error = ValueError string

text \<open>Python's slice \<^verbatim>\<open>xs[:n]\<close>: a negative bound counts from the end.\<close>

definition py_slice_to :: "'a list \<Rightarrow> int \<Rightarrow> 'a list" where
  "py_slice_to xs n =
     (if 0 \<le> n then take (nat n) xs else take (length xs - nat (- n)) xs)"

section \<open>scorer.py\<close>

text \<open>
  \<^verbatim>\<open>calculate_keyword_match_score\<close>: Jaccard similarity of the two keyword lists read
  as sets; \<^verbatim>\<open>0.0\<close> when either list is empty.
\<close>

definition calculate_keyword_match_score :: "string list \<Rightarrow> string list \<Rightarrow> real" where
  "calculate_keyword_match_score resume_keywords jd_keywords =
     (if resume_keywords = [] \<or> jd_keywords = [] then 0
      else
        let set_resume = set resume_keywords;
            set_jd = set jd_keywords;
            intersection = card (set_resume \<inter> set_jd);
            union = card (set_resume \<union> set_jd)
        in if union = 0 then 0 else real intersection / real union)"

text \<open>
  \<^verbatim>\<open>calculate_overall_score\<close>, in exact arithmetic: the range check of the
  weights raises, a weight sum that is not positive returns \<^verbatim>\<open>0.0\<close>, a weight
  sum other than one normalises both weights, the semantic score is clamped, and the
  weighted sum is scaled to 0..100.
\<close>

definition calculate_overall_score ::
  "string list \<Rightarrow> string list \<Rightarrow> real \<Rightarrow> real \<Rightarrow> real \<Rightarrow> error + real" where
  "calculate_overall_score resume_keywords jd_keywords semantic_similarity_score
       keyword_weight semantic_weight =
     (if \<not> (0 \<le> keyword_weight \<and> keyword_weight \<le> 1
             \<and> 0 \<le> semantic_weight \<and> semantic_weight \<le> 1)
      then Inl (ValueError ''Weights must be between 0 and 1.'')
      else if \<not> (keyword_weight + semantic_weight > 0) then Inr 0
      else
        let total_weight = keyword_weight + semantic_weight in
        if total_weight \<noteq> 1 \<and> total_weight = 0 then Inr 0
        else
          let keyword_weight' =
                (if total_weight \<noteq> 1 then keyword_weight / total_weight else keyword_weight);
              semantic_weight' =
                (if total_weight \<noteq> 1 then semantic_weight / total_weight else semantic_weight);
              keyword_match_score = calculate_keyword_match_score resume_keywords jd_keywords;
              clamped_semantic_score = max 0 (min 1 semantic_similarity_score);
              combined_score_0_to_1 =
                keyword_match_score * keyword_weight' + clamped_semantic_score * semantic_weight';
              overall_score_0_to_100 = combined_score_0_to_1 * 100
          in Inr overall_score_0_to_100)"

section \<open>Formatting helpers of the Python runtime\<close>

text \<open>The decimal digits that \<^verbatim>\<open>str\<close> prints for an integer.\<close>

fun digits_of_nat :: "nat \<Rightarrow> string" where
  "digits_of_nat n =
     (if n < 10 then [] else digits_of_nat (n div 10)) @ [''0123456789'' ! (n mod 10)]"

declare digits_of_nat.simps [simp del]

definition py_str_int :: "int \<Rightarrow> string" where
  "py_str_int i =
     (if 0 \<le> i then digits_of_nat (nat i) else CHR ''-'' # digits_of_nat (nat (- i)))"

text \<open>
  The format \<^verbatim>\<open>{x:.0f}\<close> rounds to the nearest integer, a tie going to the even
  neighbour, and keeps the sign of a negative argument.
\<close>

definition round_half_even :: "real \<Rightarrow> int" where
  "round_half_even x =
     (let f = \<lfloor>x\<rfloor>; d = x - of_int f
      in if d < 1 / 2 then f else if 1 / 2 < d then f + 1
         else if even f then f else f + 1)"

definition format_0f :: "real \<Rightarrow> string" where
  "format_0f x =
     (if x < 0 then CHR ''-'' # digits_of_nat (nat (round_half_even (- x)))
      else digits_of_nat (nat (round_half_even x)))"

section \<open>scorer.py in binary64 arithmetic\<close>

text \<open>
  A Python float is an IEEE 754 binary64 number, and every arithmetic operation returns
  the exact result rounded to the nearest such number, a tie going to the even
  significand. \<open>fl\<close> is this rounding on the reals: below, \<open>e\<close> is the exponent of the
  last place of the significand of 53 bits, not under the exponent \<open>- 1074\<close> of the
  subnormal numbers. Results beyond the largest binary64 number do not arise in
  \<^verbatim>\<open>calculate_overall_score\<close>, whose operands lie between 0 and 100.
\<close>

fun bit_length :: "nat \<Rightarrow> nat" where
  "bit_length n = (if n = 0 then 0 else Suc (bit_length (n div 2)))"

declare bit_length.simps [simp del]

text \<open>The integer part of the binary logarithm of a positive number.\<close>

definition ilog2 :: "real \<Rightarrow> int" where
  "ilog2 x =
     (if 1 \<le> x then int (bit_length (nat \<lfloor>x\<rfloor>)) - 1
      else - int (bit_length (nat (\<lceil>1 / x\<rceil> - 1))))"

definition pow2 :: "int \<Rightarrow> real" where
  "pow2 e = (if 0 \<le> e then 2 ^ nat e else 1 / 2 ^ nat (- e))"

definition fl :: "real \<Rightarrow> real" where
  "fl x =
     (if x = 0 then 0
      else
        let e = max (ilog2 \<bar>x\<bar> - 52) (- 1074);
            m = round_half_even (\<bar>x\<bar> / pow2 e)
        in sgn x * real_of_int m * pow2 e)"

text \<open>
  The two functions of the scorer with the rounding of every float operation written
  out: the division of the two set sizes, the sum of the weights, the two divisions by
  the weight sum, the two products, their sum and the scaling by 100. The comparisons
  and \<^verbatim>\<open>max\<close> and \<^verbatim>\<open>min\<close> are exact. The float arguments are binary64 numbers.
\<close>

definition calculate_keyword_match_score_f64 :: "string list \<Rightarrow> string list \<Rightarrow> real" where
  "calculate_keyword_match_score_f64 resume_keywords jd_keywords =
     (if resume_keywords = [] \<or> jd_keywords = [] then 0
      else
        let set_resume = set resume_keywords;
            set_jd = set jd_keywords;
            intersection = card (set_resume \<inter> set_jd);
            union = card (set_resume \<union> set_jd)
        in if union = 0 then 0 else fl (real intersection / real union))"

definition calculate_overall_score_f64 ::
  "string list \<Rightarrow> string list \<Rightarrow> real \<Rightarrow> real \<Rightarrow> real \<Rightarrow> error + real" where
  "calculate_overall_score_f64 resume_keywords jd_keywords semantic_similarity_score
       keyword_weight semantic_weight =
     (if \<not> (0 \<le> keyword_weight \<and> keyword_weight \<le> 1
             \<and> 0 \<le> semantic_weight \<and> semantic_weight \<le> 1)
      then Inl (ValueError ''Weights must be between 0 and 1.'')
      else if \<not> (fl (keyword_weight + semantic_weight) > 0) then Inr 0
      else
        let total_weight = fl (keyword_weight + semantic_weight) in
        if total_weight \<noteq> 1 \<and> total_weight = 0 then Inr 0
        else
          let keyword_weight' =
                (if total_weight \<noteq> 1 then fl (keyword_weight / total_weight)
                 else keyword_weight);
              semantic_weight' =
                (if total_weight \<noteq> 1 then fl (semantic_weight / total_weight)
                 else semantic_weight);
              keyword_match_score =
                calculate_keyword_match_score_f64 resume_keywords jd_keywords;
              clamped_semantic_score = max 0 (min 1 semantic_similarity_score);
              combined_score_0_to_1 =
                fl (fl (keyword_match_score * keyword_weight')
                    + fl (clamped_semantic_score * semantic_weight'));
              overall_score_0_to_100 = fl (combined_score_0_to_1 * 100)
          in Inr overall_score_0_to_100)"

text \<open>\<^verbatim>\<open>sep.join(xs)\<close>.\<close>

fun py_join :: "string \<Rightarrow> string list \<Rightarrow> string" where
  "py_join sep [] = []"
| "py_join sep [x] = x"
| "py_join sep (x # y # ys) = x @ sep @ py_join sep (y # ys)"

text \<open>
  \<^verbatim>\<open>str.lower\<close>: among the code points 0 to 255 the capital letters are A to Z and
  the accented capitals C0 to D6 and D8 to DE; each has its small letter 32 places up.
  Every other character is kept as it is.
\<close>

definition upper_letters :: string where
  "upper_letters =
     ''ABCDEFGHIJKLMNOPQRSTUVWXYZ''
     @ [CHR 0xC0, CHR 0xC1, CHR 0xC2, CHR 0xC3, CHR 0xC4, CHR 0xC5, CHR 0xC6, CHR 0xC7,
        CHR 0xC8, CHR 0xC9, CHR 0xCA, CHR 0xCB, CHR 0xCC, CHR 0xCD, CHR 0xCE, CHR 0xCF,
        CHR 0xD0, CHR 0xD1, CHR 0xD2, CHR 0xD3, CHR 0xD4, CHR 0xD5, CHR 0xD6, CHR 0xD8,
        CHR 0xD9, CHR 0xDA, CHR 0xDB, CHR 0xDC, CHR 0xDD, CHR 0xDE]"

definition lower_letters :: string where
  "lower_letters =
     ''abcdefghijklmnopqrstuvwxyz''
     @ [CHR 0xE0, CHR 0xE1, CHR 0xE2, CHR 0xE3, CHR 0xE4, CHR 0xE5, CHR 0xE6, CHR 0xE7,
        CHR 0xE8, CHR 0xE9, CHR 0xEA, CHR 0xEB, CHR 0xEC, CHR 0xED, CHR 0xEE, CHR 0xEF,
        CHR 0xF0, CHR 0xF1, CHR 0xF2, CHR 0xF3, CHR 0xF4, CHR 0xF5, CHR 0xF6, CHR 0xF8,
        CHR 0xF9, CHR 0xFA, CHR 0xFB, CHR 0xFC, CHR 0xFD, CHR 0xFE]"

definition lower_char :: "char \<Rightarrow> char" where
  "lower_char c =
     (case map_of (zip upper_letters lower_letters) c of
        Some l \<Rightarrow> l
      | None \<Rightarrow> c)"

definition lower :: "string \<Rightarrow> string" where
  "lower s = map lower_char s"

section \<open>feedback\_generator.py\<close>

text \<open>
  The dictionary \<^verbatim>\<open>feedback\<close> has its four keys from the first statement on; while
  the function runs it is a record of four message lists.
\<close>

record feedback =
  overall_summary :: "string list"
  missing_keywords_suggestions :: "string list"
  strengths :: "string list"
  areas_for_improvement :: "string list"

definition feedback_init :: feedback where
  "feedback_init =
     \<lparr>overall_summary = [], missing_keywords_suggestions = [],
      strengths = [], areas_for_improvement = []\<rparr>"

text \<open>
  A Python set of strings is a duplicate-free list here. The order in which Python
  iterates over a set is not fixed; the order taken here is the one of the keyword list.
\<close>

definition lower_set :: "string list \<Rightarrow> string list" where
  "lower_set keywords = remdups (map lower keywords)"

definition missing_keywords :: "string list \<Rightarrow> string list \<Rightarrow> string list" where
  "missing_keywords resume_keywords jd_keywords =
     filter (\<lambda>k. k \<notin> set (lower_set resume_keywords)) (lower_set jd_keywords)"

definition common_keywords :: "string list \<Rightarrow> string list \<Rightarrow> string list" where
  "common_keywords resume_keywords jd_keywords =
     filter (\<lambda>k. k \<in> set (lower_set jd_keywords)) (lower_set resume_keywords)"

subsection \<open>The messages\<close>

definition msg_suggestion :: "string list \<Rightarrow> string" where
  "msg_suggestion shown =
     ''Consider incorporating relevant keywords from the job description that are currently less prominent in your resume. For example: ''
     @ py_join '', '' shown @ ''.''"

definition msg_more :: "int \<Rightarrow> string" where
  "msg_more n =
     ''There are '' @ py_str_int n
     @ '' more keywords from the job description worth reviewing.''"

definition msg_excellent :: "real \<Rightarrow> string" where
  "msg_excellent overall_score =
     ''Excellent match! Your resume aligns very well with the job description (Overall Score: ''
     @ format_0f overall_score @ ''/100).''"

definition msg_good_potential :: "real \<Rightarrow> string" where
  "msg_good_potential overall_score =
     ''Good potential! Your resume shows a reasonable alignment with the job description (Overall Score: ''
     @ format_0f overall_score @ ''/100).''"

definition msg_needs_improvement :: "real \<Rightarrow> string" where
  "msg_needs_improvement overall_score =
     ''Needs improvement. Your resume could be better aligned with this specific job description (Overall Score: ''
     @ format_0f overall_score @ ''/100).''"

definition msg_strong_alignment :: string where
  "msg_strong_alignment =
     ''Your resume shows strong semantic alignment with the core responsibilities and skills outlined in the job description.''"

definition msg_moderate_alignment :: string where
  "msg_moderate_alignment = ''Good semantic alignment with the job description.''"

definition msg_general_alignment :: string where
  "msg_general_alignment =
     ''Your resume's content is generally well-aligned with the job description's key aspects.''"

definition msg_tailor_terminology :: string where
  "msg_tailor_terminology =
     ''While there's some overlap, consider tailoring your language to better reflect the specific terminology and focus areas of the job description to improve semantic relevance.''"

definition msg_low_semantic :: string where
  "msg_low_semantic =
     ''Focus on rephrasing your experience and skills to more closely match the language and requirements of the job description. The semantic similarity is currently low.''"

definition msg_highlight_relevant :: string where
  "msg_highlight_relevant =
     ''Review the job description carefully and ensure your resume clearly highlights the most relevant skills and experiences.''"

definition msg_common :: "string list \<Rightarrow> string" where
  "msg_common shown =
     ''Your resume effectively highlights skills like: '' @ py_join '', '' shown
     @ '', which are also mentioned in the job description.''"

definition msg_great_coverage :: string where
  "msg_great_coverage =
     ''Great keyword coverage! Your resume appears to include many of the key terms from the job description.''"

definition msg_generic_strength :: string where
  "msg_generic_strength =
     ''Your resume shows a good overall match. Ensure specific examples of your achievements are clearly presented.''"

definition msg_generic_improvement :: string where
  "msg_generic_improvement =
     ''Review the job description for any specific skills or qualifications you possess but haven't explicitly mentioned or emphasized in your resume.''"

subsection \<open>The steps of \<^verbatim>\<open>generate_feedback\<close>, in the order of the source\<close>

text \<open>Step 1, the missing keywords (the first \<^verbatim>\<open>if missing_keywords:\<close>).\<close>

definition suggest_missing :: "string list \<Rightarrow> int \<Rightarrow> feedback \<Rightarrow> feedback" where
  "suggest_missing missing top_n_missing_keywords fb =
     (if missing \<noteq> [] then
        let fb1 = fb\<lparr>missing_keywords_suggestions :=
                    missing_keywords_suggestions fb
                    @ [msg_suggestion (py_slice_to missing top_n_missing_keywords)]\<rparr>
        in if int (length missing) > top_n_missing_keywords
           then fb1\<lparr>missing_keywords_suggestions :=
                  missing_keywords_suggestions fb1
                  @ [msg_more (int (length missing) - top_n_missing_keywords)]\<rparr>
           else fb1
      else fb)"

text \<open>Step 2, the summary chosen by the band of the overall score.\<close>

definition summarise :: "real \<Rightarrow> real \<Rightarrow> feedback \<Rightarrow> feedback" where
  "summarise semantic_similarity_score overall_score fb =
     (if overall_score \<ge> 75 then
        let fb1 = fb\<lparr>overall_summary := overall_summary fb @ [msg_excellent overall_score]\<rparr>
        in if semantic_similarity_score \<ge> 75 / 100
           then fb1\<lparr>strengths := strengths fb1 @ [msg_strong_alignment]\<rparr>
           else if semantic_similarity_score \<ge> 60 / 100
           then fb1\<lparr>strengths := strengths fb1 @ [msg_moderate_alignment]\<rparr>
           else fb1
      else if overall_score \<ge> 50 then
        let fb1 = fb\<lparr>overall_summary :=
                    overall_summary fb @ [msg_good_potential overall_score]\<rparr>
        in if semantic_similarity_score \<ge> 60 / 100
           then fb1\<lparr>strengths := strengths fb1 @ [msg_general_alignment]\<rparr>
           else fb1\<lparr>areas_for_improvement :=
                  areas_for_improvement fb1 @ [msg_tailor_terminology]\<rparr>
      else
        let fb1 = fb\<lparr>overall_summary :=
                    overall_summary fb @ [msg_needs_improvement overall_score]\<rparr>
        in if semantic_similarity_score < 5 / 10
           then fb1\<lparr>areas_for_improvement := areas_for_improvement fb1 @ [msg_low_semantic]\<rparr>
           else fb1\<lparr>areas_for_improvement :=
                  areas_for_improvement fb1 @ [msg_highlight_relevant]\<rparr>)"

text \<open>Step 3, the four keyword rules, one \<^verbatim>\<open>if\<close> each, in the order of the source.\<close>

definition strength_from_common :: "string list \<Rightarrow> int \<Rightarrow> feedback \<Rightarrow> feedback" where
  "strength_from_common common top_n_missing_keywords fb =
     (if common \<noteq> []
      then fb\<lparr>strengths :=
             strengths fb @ [msg_common (py_slice_to common top_n_missing_keywords)]\<rparr>
      else fb)"

definition strength_from_coverage :: "string list \<Rightarrow> real \<Rightarrow> feedback \<Rightarrow> feedback" where
  "strength_from_coverage missing overall_score fb =
     (if missing = [] \<and> overall_score \<ge> 70
      then fb\<lparr>strengths := strengths fb @ [msg_great_coverage]\<rparr>
      else fb)"

definition generic_strength :: "real \<Rightarrow> feedback \<Rightarrow> feedback" where
  "generic_strength overall_score fb =
     (if strengths fb = [] \<and> overall_score \<ge> 60
      then fb\<lparr>strengths := strengths fb @ [msg_generic_strength]\<rparr>
      else fb)"

definition generic_improvement :: "real \<Rightarrow> feedback \<Rightarrow> feedback" where
  "generic_improvement overall_score fb =
     (if missing_keywords_suggestions fb = [] \<and> overall_score < 70
      then fb\<lparr>areas_for_improvement :=
             areas_for_improvement fb @ [msg_generic_improvement]\<rparr>
      else fb)"

text \<open>
  The last step pops the three optional keys when their list is empty. The returned
  dictionary is an association list in the insertion order of its keys.
\<close>

definition consolidate :: "feedback \<Rightarrow> (string \<times> string list) list" where
  "consolidate fb =
     [(''overall_summary'', overall_summary fb)]
     @ (if missing_keywords_suggestions fb = [] then []
        else [(''missing_keywords_suggestions'', missing_keywords_suggestions fb)])
     @ (if strengths fb = [] then [] else [(''strengths'', strengths fb)])
     @ (if areas_for_improvement fb = [] then []
        else [(''areas_for_improvement'', areas_for_improvement fb)])"

definition build_feedback ::
  "string list \<Rightarrow> string list \<Rightarrow> real \<Rightarrow> real \<Rightarrow> int \<Rightarrow> feedback" where
  "build_feedback resume_keywords jd_keywords semantic_similarity_score overall_score
       top_n_missing_keywords =
     (let missing = missing_keywords resume_keywords jd_keywords;
          fb1 = suggest_missing missing top_n_missing_keywords feedback_init;
          fb2 = summarise semantic_similarity_score overall_score fb1;
          common = common_keywords resume_keywords jd_keywords;
          fb3 = strength_from_common common top_n_missing_keywords fb2;
          fb4 = strength_from_coverage missing overall_score fb3;
          fb5 = generic_strength overall_score fb4;
          fb6 = generic_improvement overall_score fb5
      in fb6)"

definition generate_feedback ::
  "string list \<Rightarrow> string list \<Rightarrow> real \<Rightarrow> real \<Rightarrow> int \<Rightarrow> (string \<times> string list) list" where
  "generate_feedback resume_keywords jd_keywords semantic_similarity_score overall_score
       top_n_missing_keywords =
     consolidate (build_feedback resume_keywords jd_keywords semantic_similarity_score
                    overall_score top_n_missing_keywords)"


section \<open>semantic\_analyzer.py\<close>

text \<open>
  \<^verbatim>\<open>str.strip()\<close> removes the whitespace at both ends. Among the code points 0 to
  255, \<^verbatim>\<open>str.isspace\<close> accepts 09 to 0D, 1C to 1F, 20, 85 and A0.
\<close>

definition is_space :: "char \<Rightarrow> bool" where
  "is_space c \<longleftrightarrow>
     c \<in> set [CHR 0x09, CHR 0x0A, CHR 0x0B, CHR 0x0C, CHR 0x0D,
              CHR 0x1C, CHR 0x1D, CHR 0x1E, CHR 0x1F, CHR 0x20, CHR 0x85, CHR 0xA0]"

definition strip :: "string \<Rightarrow> string" where
  "strip s = rev (dropWhile is_space (rev (dropWhile is_space s)))"

text \<open>
  The sentence-transformer model is not part of the repository. The module-level variable
  \<^verbatim>\<open>sentence_model\<close> is \<^verbatim>\<open>None\<close> when loading failed; otherwise its method
  \<^verbatim>\<open>encode\<close> maps a list of texts to one embedding vector per text, or raises
  (the value \<open>None\<close> here).
\<close>

type_synonym encoder = "string list \<Rightarrow> real list list option"

text \<open>
  \<^verbatim>\<open>cosine_similarity\<close> of scikit-learn on two single rows: both rows are scaled to
  unit length (a row of norm zero is left as it is) and multiplied. Rows of different or
  of zero width are rejected with an exception.
\<close>

definition dot :: "real list \<Rightarrow> real list \<Rightarrow> real" where
  "dot x y = sum_list (map2 (*) x y)"

definition normalize :: "real list \<Rightarrow> real list" where
  "normalize x =
     (let n = sqrt (dot x x); n' = (if n = 0 then 1 else n) in map (\<lambda>a. a / n') x)"

definition cosine_similarity :: "real list \<Rightarrow> real list \<Rightarrow> real option" where
  "cosine_similarity x y =
     (if x = [] \<or> length x \<noteq> length y then None
      else Some (dot (normalize x) (normalize y)))"

definition calculate_semantic_similarity :: "encoder option \<Rightarrow> pyobj \<Rightarrow> pyobj \<Rightarrow> real" where
  "calculate_semantic_similarity sentence_model text1 text2 =
     (case sentence_model of
        None \<Rightarrow> 0
      | Some encode \<Rightarrow>
          if \<not> is_str text1 \<or> \<not> is_str text2 then 0
          else if strip (str_of text1) = [] \<or> strip (str_of text2) = [] then
            (if strip (str_of text1) = [] \<and> strip (str_of text2) = [] then 1 else 0)
          else
            (case encode [str_of text1, str_of text2] of
               None \<Rightarrow> 0
             | Some embeddings \<Rightarrow>
                 if length embeddings < 2 then 0
                 else
                   (case cosine_similarity (embeddings ! 0) (embeddings ! 1) of
                      None \<Rightarrow> 0
                    | Some similarity_score \<Rightarrow> similarity_score)))"

section \<open>keyword\_extractor.py\<close>

text \<open>
  The TF-IDF vectorizer of scikit-learn is not part of the repository. Fitting it on the
  corpus either raises (the value \<open>None\<close> here, for example on an empty vocabulary) or
  gives the feature names and the matrix of scores, one row per document and one column
  per feature name.
\<close>

type_synonym vectorizer = "string list \<Rightarrow> (string list \<times> real list list) option"

text \<open>
  \<^verbatim>\<open>argsort\<close> lists the column indices by ascending score. The order among equal
  scores is not fixed by the library; here equal scores keep their column order.
\<close>

definition argsort :: "real list \<Rightarrow> nat list" where
  "argsort doc_vector = sort_key (\<lambda>idx. doc_vector ! idx) [0..<length doc_vector]"

text \<open>
  The body of the loop over the documents. Reading a feature name beyond the end of
  \<^verbatim>\<open>feature_names\<close> raises \<^verbatim>\<open>IndexError\<close>, the value \<open>None\<close> here.
\<close>

definition doc_keywords :: "string list \<Rightarrow> int \<Rightarrow> real list \<Rightarrow> string list option" where
  "doc_keywords feature_names top_n doc_vector =
     (let sorted_indices = rev (argsort doc_vector);
          selected = filter (\<lambda>idx. doc_vector ! idx > 0) (py_slice_to sorted_indices top_n)
      in if list_all (\<lambda>idx. idx < length feature_names) selected
         then Some (map (\<lambda>idx. feature_names ! idx) selected)
         else None)"

definition extract_keywords_tfidf :: "vectorizer \<Rightarrow> pyobj list \<Rightarrow> int \<Rightarrow> string list list" where
  "extract_keywords_tfidf fit_transform processed_text_corpus top_n =
     (if processed_text_corpus = [] \<or> \<not> list_all is_str processed_text_corpus
      then (if processed_text_corpus \<noteq> [] then map (\<lambda>_. []) processed_text_corpus else [])
      else
        (case fit_transform (map str_of processed_text_corpus) of
           None \<Rightarrow> map (\<lambda>_. []) processed_text_corpus
         | Some (feature_names, tfidf_matrix) \<Rightarrow>
             let corpus_keywords = map (doc_keywords feature_names top_n) tfidf_matrix
             in if list_all (\<lambda>doc. doc \<noteq> None) corpus_keywords
                then map the corpus_keywords
                else map (\<lambda>_. []) processed_text_corpus))"

section \<open>text\_processor.py\<close>













section \<open>Properties of the scorer\<close>

lemma keyword_match_score_range:
  "0 \<le> calculate_keyword_match_score r j \<and> calculate_keyword_match_score r j \<le> 1"
proof -
  have "card (set r \<inter> set j) \<le> card (set r \<union> set j)"
    by (rule card_mono) auto
  then have "real (card (set r \<inter> set j)) \<le> real (card (set r \<union> set j))"
    by simp
  then show ?thesis
    by (simp add: calculate_keyword_match_score_def Let_def divide_le_eq_1 card_gt_0_iff)
qed

lemma overall_score_valid:
  assumes "0 \<le> kw" "kw \<le> 1" "0 \<le> sw" "sw \<le> 1" "0 < kw + sw"
  shows "calculate_overall_score r j s kw sw =
           Inr ((calculate_keyword_match_score r j * (kw / (kw + sw))
                 + max 0 (min 1 s) * (sw / (kw + sw))) * 100)"
  using assms by (simp add: calculate_overall_score_def Let_def)

text \<open>
  In exact arithmetic, with both weights in \<open>[0, 1]\<close> and a positive sum, the score is
  the Jaccard keyword score and the clamped semantic score, each weighted by its share of
  the weight sum, times 100; that value lies in \<open>[0, 100]\<close>; and the weights
  \<open>(0.5, 0.8)\<close> give the same score as \<open>(0.5 / 1.3, 0.8 / 1.3)\<close>.
\<close>

lemma overall_score_exact:
  assumes "0 \<le> kw" "kw \<le> 1" "0 \<le> sw" "sw \<le> 1" "0 < kw + sw"
  shows "calculate_overall_score r j s kw sw =
           Inr ((calculate_keyword_match_score r j * (kw / (kw + sw))
                 + max 0 (min 1 s) * (sw / (kw + sw))) * 100)
         \<and> 0 \<le> (calculate_keyword_match_score r j * (kw / (kw + sw))
                 + max 0 (min 1 s) * (sw / (kw + sw))) * 100
         \<and> (calculate_keyword_match_score r j * (kw / (kw + sw))
                 + max 0 (min 1 s) * (sw / (kw + sw))) * 100 \<le> 100
         \<and> calculate_overall_score r j s (5 / 10) (8 / 10) =
             calculate_overall_score r j s ((5 / 10) / (13 / 10)) ((8 / 10) / (13 / 10))"
proof -
  let ?k = "calculate_keyword_match_score r j"
  let ?c = "max 0 (min 1 s)"
  let ?a = "kw / (kw + sw)"
  let ?b = "sw / (kw + sw)"
  have k: "0 \<le> ?k" "?k \<le> 1" using keyword_match_score_range [of r j] by simp_all
  have c: "0 \<le> ?c" "?c \<le> 1" by simp_all
  have a: "0 \<le> ?a" and b: "0 \<le> ?b" using assms by simp_all
  have ab: "?a + ?b = 1" using assms by (simp add: add_divide_distrib [symmetric])
  have lo: "0 \<le> ?k * ?a + ?c * ?b"
    using k(1) c(1) a b by (intro add_nonneg_nonneg mult_nonneg_nonneg)
  have "?k * ?a \<le> 1 * ?a" using k a by (intro mult_right_mono) simp_all
  moreover have "?c * ?b \<le> 1 * ?b" using c b by (intro mult_right_mono) simp_all
  ultimately have hi: "?k * ?a + ?c * ?b \<le> 1" using ab by linarith
  have norm: "calculate_overall_score r j s (5 / 10) (8 / 10) =
             calculate_overall_score r j s ((5 / 10) / (13 / 10)) ((8 / 10) / (13 / 10))"
    by (simp add: calculate_overall_score_def Let_def)
  have lo100: "0 \<le> (?k * ?a + ?c * ?b) * 100"
    using lo by (rule mult_nonneg_nonneg) simp
  have "(?k * ?a + ?c * ?b) * 100 \<le> 1 * 100"
    using hi by (rule mult_right_mono) simp
  then have hi100: "(?k * ?a + ?c * ?b) * 100 \<le> 100" by simp
  show ?thesis
    using overall_score_valid [OF assms, of r j s] lo100 hi100 norm by blast
qed

lemmas fl_eval = fl_def ilog2_def pow2_def round_half_even_def Let_def bit_length.simps

lemma fl_three_thousandths: "fl (3 / 1000) = 3458764513820541 / 1152921504606846976"
  by (simp add: fl_eval)

text \<open>
  Claim C2 says that the result always lies in \<open>[0, 100]\<close>. In the binary64 arithmetic
  of the code it does not: for the one keyword "a" on both sides, the semantic score 1.0
  and the weights 1.0 and 0.003, both in \<open>[0, 1]\<close>, the two normalised weights round to
  a sum one unit in the last place above 1, and the function returns
  \<open>100 + 1 / 2 ^ 45\<close>, printed as 100.00000000000003.
\<close>

theorem overall_score_f64_exceeds_100:
  "0 \<le> fl (3 / 1000) \<and> fl (3 / 1000) \<le> 1
   \<and> calculate_overall_score_f64 [''a''] [''a''] 1 1 (fl (3 / 1000))
       = Inr (100 + 1 / 2 ^ 45)
   \<and> (100 :: real) < 100 + 1 / 2 ^ 45"
  by (simp add: fl_three_thousandths calculate_overall_score_f64_def
        calculate_keyword_match_score_f64_def fl_eval)

theorem overall_score_f64_exceeds_100_witness:
  "\<not> (\<exists>v. calculate_overall_score_f64 [''a''] [''a''] 1 1 (fl (3 / 1000)) = Inr v
           \<and> 0 \<le> v \<and> v \<le> 100)"
  using overall_score_f64_exceeds_100 by simp

text \<open>
  Claim C5, as the code has it. A weight outside \<open>[0, 1]\<close> raises
  \<^verbatim>\<open>ValueError\<close>. Two weights in range that sum to zero (both are zero) do not
  raise: the function returns \<^verbatim>\<open>0.0\<close>.
\<close>

theorem overall_score_invalid_weights:
  "(\<not> (0 \<le> kw \<and> kw \<le> 1 \<and> 0 \<le> sw \<and> sw \<le> 1) \<longrightarrow>
      calculate_overall_score r j s kw sw = Inl (ValueError ''Weights must be between 0 and 1.''))
   \<and> (0 \<le> kw \<and> kw \<le> 1 \<and> 0 \<le> sw \<and> sw \<le> 1 \<and> kw + sw = 0 \<longrightarrow>
      calculate_overall_score r j s kw sw = Inr 0)"
  by (simp add: calculate_overall_score_def)

theorem overall_score_invalid_weights_witness:
  "\<not> ((0::real) \<le> 3 / 2 \<and> (3 / 2 :: real) \<le> 1 \<and> (0::real) \<le> 1 / 2 \<and> (1 / 2 :: real) \<le> 1)
   \<and> calculate_overall_score [''python''] [''java''] (8 / 10) (3 / 2) (1 / 2)
       = Inl (ValueError ''Weights must be between 0 and 1.'')
   \<and> (0::real) + 0 = 0
   \<and> calculate_overall_score [''python''] [''java''] (8 / 10) 0 0 = Inr 0"
  using overall_score_invalid_weights [of "3 / 2" "1 / 2" "[''python'']" "[''java'']" "8 / 10"]
        overall_score_invalid_weights [of 0 0 "[''python'']" "[''java'']" "8 / 10"]
  by simp

text \<open>
  Claim C5 as stated fails: with both weights zero, a weight configuration that sums to
  zero, the call returns the number \<^verbatim>\<open>0.0\<close> and no error.
\<close>

theorem overall_score_zero_weights_counterexample:
  "\<not> (\<exists>e. calculate_overall_score [''python''] [''java''] (8 / 10) 0 0 = Inl e)
   \<and> calculate_overall_score [''python''] [''java''] (8 / 10) 0 0 = Inr 0"
  by (simp add: calculate_overall_score_def)

text \<open>
  Claim C7. For fixed keyword lists and weights in \<open>[0, 1]\<close>, the overall score does
  not decrease when the semantic similarity grows; both calls return a score, also for
  semantic values outside \<open>[0, 1]\<close>, which are clamped.
\<close>

theorem overall_score_monotone:
  assumes "0 \<le> kw" "kw \<le> 1" "0 \<le> sw" "sw \<le> 1" "s1 \<le> s2"
  shows "\<exists>v1 v2. calculate_overall_score r j s1 kw sw = Inr v1
               \<and> calculate_overall_score r j s2 kw sw = Inr v2 \<and> v1 \<le> v2"
proof (cases "0 < kw + sw")
  case True
  have "max 0 (min 1 s1) \<le> max 0 (min 1 s2)" using assms(5) by auto
  moreover have "0 \<le> sw / (kw + sw)" using assms True by simp
  ultimately have m: "max 0 (min 1 s1) * (sw / (kw + sw)) \<le> max 0 (min 1 s2) * (sw / (kw + sw))"
    by (rule mult_right_mono)
  have "calculate_keyword_match_score r j * (kw / (kw + sw))
                 + max 0 (min 1 s1) * (sw / (kw + sw))
             \<le> calculate_keyword_match_score r j * (kw / (kw + sw))
                 + max 0 (min 1 s2) * (sw / (kw + sw))"
    using m by (rule add_left_mono)
  then have "(calculate_keyword_match_score r j * (kw / (kw + sw))
                 + max 0 (min 1 s1) * (sw / (kw + sw))) * 100
             \<le> (calculate_keyword_match_score r j * (kw / (kw + sw))
                 + max 0 (min 1 s2) * (sw / (kw + sw))) * 100"
    by (rule mult_right_mono) simp
  then show ?thesis
    using overall_score_valid [OF assms(1-4) True, of r j s1]
          overall_score_valid [OF assms(1-4) True, of r j s2] by blast
next
  case False
  then show ?thesis using assms by (simp add: calculate_overall_score_def)
qed

theorem overall_score_monotone_witness:
  "(0::real) \<le> 4 / 10 \<and> (4 / 10 :: real) \<le> 1 \<and> (0::real) \<le> 6 / 10 \<and> (6 / 10 :: real) \<le> 1
   \<and> (- 1 / 2 :: real) \<le> 3 / 2
   \<and> (\<exists>v1 v2. calculate_overall_score [''python''] [''python'', ''java''] (- 1 / 2) (4 / 10) (6 / 10) = Inr v1
              \<and> calculate_overall_score [''python''] [''python'', ''java''] (3 / 2) (4 / 10) (6 / 10) = Inr v2
              \<and> v1 \<le> v2)"
  using overall_score_monotone [of "4 / 10" "6 / 10" "- 1 / 2" "3 / 2" "[''python'']" "[''python'', ''java'']"]
  by simp

section \<open>Properties of the feedback generator\<close>

lemma suggest_missing_fields:
  "overall_summary (suggest_missing ms n fb) = overall_summary fb"
  "strengths (suggest_missing ms n fb) = strengths fb"
  "areas_for_improvement (suggest_missing ms n fb) = areas_for_improvement fb"
  "(missing_keywords_suggestions (suggest_missing ms n fb) = []) =
     (missing_keywords_suggestions fb = [] \<and> ms = [])"
  by (simp_all add: suggest_missing_def Let_def)

lemma summarise_fields:
  "overall_summary (summarise s v fb) =
     overall_summary fb
     @ [if 75 \<le> v then msg_excellent v else if 50 \<le> v then msg_good_potential v
        else msg_needs_improvement v]"
  "missing_keywords_suggestions (summarise s v fb) = missing_keywords_suggestions fb"
  "strengths (summarise s v fb) =
     strengths fb
     @ (if 75 \<le> v then (if 75 / 100 \<le> s then [msg_strong_alignment]
                          else if 60 / 100 \<le> s then [msg_moderate_alignment] else [])
        else if 50 \<le> v then (if 60 / 100 \<le> s then [msg_general_alignment] else [])
        else [])"
  "areas_for_improvement (summarise s v fb) =
     areas_for_improvement fb
     @ (if 75 \<le> v then []
        else if 50 \<le> v then (if 60 / 100 \<le> s then [] else [msg_tailor_terminology])
        else (if s < 5 / 10 then [msg_low_semantic] else [msg_highlight_relevant]))"
  by (simp_all add: summarise_def Let_def)

lemma strength_from_common_fields:
  "overall_summary (strength_from_common cs n fb) = overall_summary fb"
  "missing_keywords_suggestions (strength_from_common cs n fb) = missing_keywords_suggestions fb"
  "strengths (strength_from_common cs n fb) =
     strengths fb @ (if cs \<noteq> [] then [msg_common (py_slice_to cs n)] else [])"
  "areas_for_improvement (strength_from_common cs n fb) = areas_for_improvement fb"
  by (simp_all add: strength_from_common_def)

lemma strength_from_coverage_fields:
  "overall_summary (strength_from_coverage ms v fb) = overall_summary fb"
  "missing_keywords_suggestions (strength_from_coverage ms v fb) = missing_keywords_suggestions fb"
  "strengths (strength_from_coverage ms v fb) =
     strengths fb @ (if ms = [] \<and> 70 \<le> v then [msg_great_coverage] else [])"
  "areas_for_improvement (strength_from_coverage ms v fb) = areas_for_improvement fb"
  by (simp_all add: strength_from_coverage_def)

lemma generic_strength_fields:
  "overall_summary (generic_strength v fb) = overall_summary fb"
  "missing_keywords_suggestions (generic_strength v fb) = missing_keywords_suggestions fb"
  "strengths (generic_strength v fb) =
     strengths fb @ (if strengths fb = [] \<and> 60 \<le> v then [msg_generic_strength] else [])"
  "areas_for_improvement (generic_strength v fb) = areas_for_improvement fb"
  by (simp_all add: generic_strength_def)

lemma generic_improvement_fields:
  "overall_summary (generic_improvement v fb) = overall_summary fb"
  "missing_keywords_suggestions (generic_improvement v fb) = missing_keywords_suggestions fb"
  "strengths (generic_improvement v fb) = strengths fb"
  "areas_for_improvement (generic_improvement v fb) =
     areas_for_improvement fb
     @ (if missing_keywords_suggestions fb = [] \<and> v < 70 then [msg_generic_improvement] else [])"
  by (simp_all add: generic_improvement_def)

lemmas step_fields = suggest_missing_fields summarise_fields strength_from_common_fields
  strength_from_coverage_fields generic_strength_fields generic_improvement_fields

lemma feedback_init_fields:
  "overall_summary feedback_init = []" "missing_keywords_suggestions feedback_init = []"
  "strengths feedback_init = []" "areas_for_improvement feedback_init = []"
  by (simp_all add: feedback_init_def)


lemma build_overall_summary:
  "overall_summary (build_feedback r j s v n) =
     [if 75 \<le> v then msg_excellent v else if 50 \<le> v then msg_good_potential v
      else msg_needs_improvement v]"
  by (simp add: build_feedback_def Let_def step_fields feedback_init_fields)

lemma build_strengths:
  "strengths (build_feedback r j s v n) =
     (let base = strengths (summarise s v feedback_init)
            @ (if common_keywords r j \<noteq> [] then [msg_common (py_slice_to (common_keywords r j) n)] else [])
            @ (if missing_keywords r j = [] \<and> 70 \<le> v then [msg_great_coverage] else [])
      in base @ (if base = [] \<and> 60 \<le> v then [msg_generic_strength] else []))"
  by (simp add: build_feedback_def Let_def step_fields feedback_init_fields)


lemma build_suggestions_empty:
  "(missing_keywords_suggestions (build_feedback r j s v n) = []) = (missing_keywords r j = [])"
  by (simp add: build_feedback_def Let_def step_fields feedback_init_fields)

lemma map_of_consolidate:
  "map_of (consolidate fb) k =
     (if k = ''overall_summary'' then Some (overall_summary fb)
      else if k = ''missing_keywords_suggestions'' \<and> missing_keywords_suggestions fb \<noteq> []
        then Some (missing_keywords_suggestions fb)
      else if k = ''strengths'' \<and> strengths fb \<noteq> [] then Some (strengths fb)
      else if k = ''areas_for_improvement'' \<and> areas_for_improvement fb \<noteq> []
        then Some (areas_for_improvement fb)
      else None)"
  by (simp add: consolidate_def)



lemma get_summary:
  "map_of (generate_feedback r j s v n) ''overall_summary''
     = Some (overall_summary (build_feedback r j s v n))"
  by (simp add: generate_feedback_def map_of_consolidate)











text \<open>
  Claim C10. Every key of the returned report maps to a non-empty message list, and the
  key \<^verbatim>\<open>overall_summary\<close> is always present with exactly one message. The keys
  are distinct and among the four category names.
\<close>
theorem generate_feedback_categories:
  "(\<forall>k l. map_of (generate_feedback r j s v n) k = Some l \<longrightarrow> l \<noteq> [])
   \<and> (\<exists>m. map_of (generate_feedback r j s v n) ''overall_summary'' = Some [m])
   \<and> distinct (map fst (generate_feedback r j s v n))
   \<and> set (map fst (generate_feedback r j s v n))
       \<subseteq> {''overall_summary'', ''missing_keywords_suggestions'', ''strengths'',
           ''areas_for_improvement''}"
proof (intro conjI allI impI)
  fix k l
  assume "map_of (generate_feedback r j s v n) k = Some l"
  then show "l \<noteq> []"
    by (auto simp: generate_feedback_def map_of_consolidate build_overall_summary
             split: if_splits)
next
  show "\<exists>m. map_of (generate_feedback r j s v n) ''overall_summary'' = Some [m]"
    by (simp add: get_summary build_overall_summary)
next
  show "distinct (map fst (generate_feedback r j s v n))"
    by (simp add: generate_feedback_def consolidate_def)
next
  show "set (map fst (generate_feedback r j s v n))
       \<subseteq> {''overall_summary'', ''missing_keywords_suggestions'', ''strengths'',
           ''areas_for_improvement''}"
    by (simp add: generate_feedback_def consolidate_def)
qed

theorem generate_feedback_categories_witness:
  "map_of (generate_feedback [] [] (1 / 2) 72 5) ''strengths'' = Some [msg_great_coverage]
   \<and> [msg_great_coverage] \<noteq> []
   \<and> map_of (generate_feedback [] [] (1 / 2) 72 5) ''missing_keywords_suggestions'' = None"
proof -
  have h: "map_of (generate_feedback [] [] (1 / 2) 72 5) ''strengths'' = Some [msg_great_coverage]"
    by (simp add: generate_feedback_def map_of_consolidate build_strengths summarise_fields feedback_init_fields
          Let_def missing_keywords_def common_keywords_def lower_set_def)
  have n: "map_of (generate_feedback [] [] (1 / 2) 72 5) ''missing_keywords_suggestions'' = None"
    by (simp add: generate_feedback_def map_of_consolidate build_suggestions_empty
          missing_keywords_def lower_set_def)
  show ?thesis
    using h n generate_feedback_categories [of "[]" "[]" "1 / 2" 72 5] by blast
qed







section \<open>Properties of the semantic analyzer\<close>

lemma strip_empty_iff: "strip s = [] \<longleftrightarrow> (\<forall>c \<in> set s. is_space c)"
proof
  assume "strip s = []"
  then have "dropWhile is_space (rev (dropWhile is_space s)) = []"
    by (simp add: strip_def)
  then have "\<forall>c \<in> set (rev (dropWhile is_space s)). is_space c"
    by (simp add: dropWhile_eq_Nil_conv)
  then have "dropWhile is_space s = []"
    by (metis dropWhile_eq_Nil_conv hd_dropWhile hd_in_set set_rev)
  then show "\<forall>c \<in> set s. is_space c"
    by (simp add: dropWhile_eq_Nil_conv)
next
  assume "\<forall>c \<in> set s. is_space c"
  then have d: "dropWhile is_space s = []"
    by (simp add: dropWhile_eq_Nil_conv)
  show "strip s = []"
    unfolding strip_def d by simp
qed

text \<open>
  Claim C4. Without a loaded model every call returns 0. With a model: an argument that
  is not a string gives 0; two strings that are empty or all whitespace give 1; exactly
  one such string gives 0; and an exception raised by the encoder gives 0. The function
  is total, so no call raises.
\<close>

theorem semantic_similarity_edge_policy:
  "calculate_semantic_similarity None text1 text2 = 0
   \<and> (\<not> is_str text1 \<or> \<not> is_str text2 \<longrightarrow>
        calculate_semantic_similarity (Some encode) text1 text2 = 0)
   \<and> ((\<forall>c \<in> set a. is_space c) \<and> (\<forall>c \<in> set b. is_space c) \<longrightarrow>
        calculate_semantic_similarity (Some encode) (PyStr a) (PyStr b) = 1)
   \<and> ((\<forall>c \<in> set a. is_space c) \<noteq> (\<forall>c \<in> set b. is_space c) \<longrightarrow>
        calculate_semantic_similarity (Some encode) (PyStr a) (PyStr b) = 0)
   \<and> (encode [a, b] = None \<and> \<not> ((\<forall>c \<in> set a. is_space c) \<and> (\<forall>c \<in> set b. is_space c)) \<longrightarrow>
        calculate_semantic_similarity (Some encode) (PyStr a) (PyStr b) = 0)"
  by (auto simp: calculate_semantic_similarity_def strip_empty_iff [symmetric])

theorem semantic_similarity_edge_policy_witness:
  "calculate_semantic_similarity None (PyStr ''resume'') (PyInt 7) = 0
   \<and> calculate_semantic_similarity (Some (\<lambda>ts. Some (map (\<lambda>t. [1, real (length t)]) ts)))
        (PyStr ''resume'') (PyInt 7) = 0
   \<and> calculate_semantic_similarity (Some (\<lambda>ts. Some (map (\<lambda>t. [1, real (length t)]) ts)))
        (PyStr '''') (PyStr ''  '') = 1
   \<and> calculate_semantic_similarity (Some (\<lambda>ts. Some (map (\<lambda>t. [1, real (length t)]) ts)))
        (PyStr ''x'') (PyStr '''') = 0
   \<and> calculate_semantic_similarity (Some (\<lambda>ts. None)) (PyStr ''x'') (PyStr ''y'') = 0"
  using
    semantic_similarity_edge_policy [of "PyStr ''resume''" "PyInt 7"
      "\<lambda>ts. Some (map (\<lambda>t. [1, real (length t)]) ts)" "''''" "''  ''"]
    semantic_similarity_edge_policy [of "PyStr ''resume''" "PyInt 7"
      "\<lambda>ts. Some (map (\<lambda>t. [1, real (length t)]) ts)" "''x''" "''''"]
    semantic_similarity_edge_policy [of "PyStr ''resume''" "PyInt 7"
      "\<lambda>ts. None" "''x''" "''y''"]
  by (simp add: is_space_def)

text \<open>
  Claim C3 asks for a result in \<open>[0, 1]\<close> on the cosine path. The code returns the
  cosine as it is, and a cosine is negative when the two embeddings point apart: here the
  encoder gives two opposite vectors and the result is \<open>- 1\<close>.
\<close>

theorem semantic_similarity_negative:
  "calculate_semantic_similarity (Some (\<lambda>ts. Some [[1, 0], [- 1, 0]]))
     (PyStr ''A man is playing guitar'') (PyStr ''A woman watches TV'') = - 1"
  by (simp add: calculate_semantic_similarity_def strip_def is_space_def cosine_similarity_def
        normalize_def dot_def Let_def)

theorem semantic_similarity_negative_witness:
  "is_str (PyStr ''A man is playing guitar'') \<and> is_str (PyStr ''A woman watches TV'')
   \<and> \<not> (0 \<le> calculate_semantic_similarity (Some (\<lambda>ts. Some [[1, 0], [- 1, 0]]))
              (PyStr ''A man is playing guitar'') (PyStr ''A woman watches TV''))"
  using semantic_similarity_negative by simp

section \<open>Properties of the keyword extractor\<close>


lemma argsort_props:
  "set (argsort row) = {0..<length row}" "distinct (argsort row)"
  "sorted (map (\<lambda>i. row ! i) (argsort row))"
  by (simp_all add: argsort_def)

lemma sorted_indices_desc:
  "sorted_wrt (\<lambda>a b. row ! a \<ge> row ! b) (rev (argsort row))"
proof -
  have "sorted_wrt (\<lambda>a b. row ! a \<le> row ! b) (argsort row)"
    using argsort_props(3) [of row] by (simp add: sorted_map)
  then show ?thesis by (simp add: sorted_wrt_rev)
qed

lemma selected_props:
  fixes row :: "real list" and top_n :: int
  assumes "0 \<le> top_n"
  defines "sel \<equiv> filter (\<lambda>idx. row ! idx > 0) (py_slice_to (rev (argsort row)) top_n)"
  shows "distinct sel" "int (length sel) \<le> top_n" "\<forall>i \<in> set sel. i < length row \<and> 0 < row ! i"
    "sorted_wrt (\<lambda>a b. row ! a \<ge> row ! b) sel"
proof -
  have t: "py_slice_to (rev (argsort row)) top_n = take (nat top_n) (rev (argsort row))"
    using assms(1) by (simp add: py_slice_to_def)
  show "distinct sel"
    by (simp add: sel_def t argsort_props(2))
  have "length sel \<le> length (take (nat top_n) (rev (argsort row)))"
    unfolding sel_def t by (rule length_filter_le)
  also have "\<dots> \<le> nat top_n" by simp
  finally show "int (length sel) \<le> top_n" using assms(1) by linarith
  have "set sel \<subseteq> set (argsort row)"
    unfolding sel_def t using set_take_subset [of "nat top_n" "rev (argsort row)"] by auto
  then show "\<forall>i \<in> set sel. i < length row \<and> 0 < row ! i"
    using argsort_props(1) [of row] by (auto simp: sel_def)
  show "sorted_wrt (\<lambda>a b. row ! a \<ge> row ! b) sel"
    unfolding sel_def t
    by (intro sorted_wrt_filter sorted_wrt_take sorted_indices_desc)
qed


lemma doc_keywords_props:
  fixes row :: "real list" and top_n :: int
  assumes "0 \<le> top_n" "distinct names" "length row = length names"
  shows "\<exists>kws. doc_keywords names top_n row = Some kws
           \<and> distinct kws \<and> int (length kws) \<le> top_n
           \<and> (\<forall>k \<in> set kws. \<exists>v. map_of (zip names row) k = Some v \<and> 0 < v)
           \<and> sorted_wrt (\<lambda>a b. a \<ge> b) (map (\<lambda>k. the (map_of (zip names row) k)) kws)"
proof -
  define sel where "sel = filter (\<lambda>idx. row ! idx > 0) (py_slice_to (rev (argsort row)) top_n)"
  note p = selected_props [OF assms(1), of row, folded sel_def]
  have in_range: "\<forall>i \<in> set sel. i < length names" using p(3) assms(3) by simp
  then have "list_all (\<lambda>idx. idx < length names) sel"
    by (simp add: list_all_iff)
  then have dk: "doc_keywords names top_n row = Some (map (\<lambda>idx. names ! idx) sel)"
    unfolding doc_keywords_def Let_def sel_def [symmetric] by simp
  have score: "map_of (zip names row) (names ! i) = Some (row ! i)" if "i \<in> set sel" for i
    using that in_range assms(2,3) by (simp add: map_of_zip_nth)
  have "inj_on (\<lambda>idx. names ! idx) (set sel)"
    using in_range assms(2) by (auto simp: inj_on_def nth_eq_iff_index_eq)
  then have d: "distinct (map (\<lambda>idx. names ! idx) sel)"
    using p(1) by (simp add: distinct_map)
  have pos: "\<forall>k \<in> set (map (\<lambda>idx. names ! idx) sel). \<exists>v. map_of (zip names row) k = Some v \<and> 0 < v"
    using score p(3) by auto
  have eq: "map (\<lambda>k. the (map_of (zip names row) k)) (map (\<lambda>idx. names ! idx) sel)
          = map (\<lambda>idx. row ! idx) sel"
    using score by simp
  have "sorted_wrt (\<lambda>a b. a \<ge> b) (map (\<lambda>idx. row ! idx) sel)"
    using p(4) by (simp add: sorted_wrt_map)
  then have srt: "sorted_wrt (\<lambda>a b. a \<ge> b)
      (map (\<lambda>k. the (map_of (zip names row) k)) (map (\<lambda>idx. names ! idx) sel))"
    unfolding eq .
  show ?thesis using dk d p(2) pos srt by simp
qed

text \<open>
  Claim C8, for a count \<open>top_n\<close> that is not negative. The vectorizer is assumed to
  return distinct feature names and rows as wide as the list of names. Then every
  keyword list that \<^verbatim>\<open>extract_keywords_tfidf\<close> returns has distinct terms, at most
  \<open>top_n\<close> of them, each with a positive score in its document, in order of
  non-increasing score; when the vectorizer raises, every list is empty.
\<close>

theorem extract_keywords_tfidf_invariants:
  fixes top_n :: int
  assumes "0 \<le> top_n"
    and "\<forall>names matrix. fit_transform (map str_of corpus) = Some (names, matrix) \<longrightarrow>
           distinct names \<and> (\<forall>row \<in> set matrix. length row = length names)"
    and "i < length (extract_keywords_tfidf fit_transform corpus top_n)"
  shows "distinct (extract_keywords_tfidf fit_transform corpus top_n ! i)
     \<and> int (length (extract_keywords_tfidf fit_transform corpus top_n ! i)) \<le> top_n
     \<and> (fit_transform (map str_of corpus) = None \<longrightarrow>
          extract_keywords_tfidf fit_transform corpus top_n ! i = [])
     \<and> (\<forall>names matrix. fit_transform (map str_of corpus) = Some (names, matrix) \<longrightarrow>
          (\<forall>k \<in> set (extract_keywords_tfidf fit_transform corpus top_n ! i).
             \<exists>v. map_of (zip names (matrix ! i)) k = Some v \<and> 0 < v)
          \<and> sorted_wrt (\<lambda>a b. a \<ge> b)
               (map (\<lambda>k. the (map_of (zip names (matrix ! i)) k))
                  (extract_keywords_tfidf fit_transform corpus top_n ! i)))"
proof (cases "corpus = [] \<or> \<not> list_all is_str corpus")
  case True
  then have "extract_keywords_tfidf fit_transform corpus top_n = map (\<lambda>_. []) corpus"
    by (auto simp: extract_keywords_tfidf_def)
  then have "extract_keywords_tfidf fit_transform corpus top_n ! i = []"
    using assms(3) by simp
  then show ?thesis using assms(1) by simp
next
  case False
  show ?thesis
  proof (cases "fit_transform (map str_of corpus)")
    case None
    then have "extract_keywords_tfidf fit_transform corpus top_n = map (\<lambda>_. []) corpus"
      using False by (simp add: extract_keywords_tfidf_def)
    then have "extract_keywords_tfidf fit_transform corpus top_n ! i = []"
      using assms(3) by simp
    then show ?thesis using assms(1) None by simp
  next
    case (Some nm)
    obtain names matrix where nm: "nm = (names, matrix)" by (cases nm)
    have wf: "distinct names" "\<forall>row \<in> set matrix. length row = length names"
      using assms(2) Some nm by auto
    have each: "\<exists>kws. doc_keywords names top_n row = Some kws
           \<and> distinct kws \<and> int (length kws) \<le> top_n
           \<and> (\<forall>k \<in> set kws. \<exists>v. map_of (zip names row) k = Some v \<and> 0 < v)
           \<and> sorted_wrt (\<lambda>a b. a \<ge> b) (map (\<lambda>k. the (map_of (zip names row) k)) kws)"
      if "row \<in> set matrix" for row
      using doc_keywords_props [OF assms(1) wf(1), of row] wf(2) that by simp
    then have all_ok: "list_all (\<lambda>doc. doc \<noteq> None) (map (doc_keywords names top_n) matrix)"
      by (auto simp: list_all_iff)
    have res: "extract_keywords_tfidf fit_transform corpus top_n
                = map the (map (doc_keywords names top_n) matrix)"
      using False Some nm all_ok by (simp add: extract_keywords_tfidf_def Let_def)
    then have i: "i < length matrix" using assms(3) by simp
    then have row: "matrix ! i \<in> set matrix" by simp
    have at: "extract_keywords_tfidf fit_transform corpus top_n ! i
                = the (doc_keywords names top_n (matrix ! i))"
      using res i by simp
    from each [OF row] obtain kws where
      k: "doc_keywords names top_n (matrix ! i) = Some kws" "distinct kws"
         "int (length kws) \<le> top_n"
         "\<forall>k \<in> set kws. \<exists>v. map_of (zip names (matrix ! i)) k = Some v \<and> 0 < v"
         "sorted_wrt (\<lambda>a b. a \<ge> b) (map (\<lambda>k. the (map_of (zip names (matrix ! i)) k)) kws)"
      by blast
    have "extract_keywords_tfidf fit_transform corpus top_n ! i = kws"
      using at k(1) by simp
    then show ?thesis using k Some nm by simp
  qed
qed


lemma extract_example:
  "extract_keywords_tfidf (\<lambda>docs. Some ([''java'', ''python'', ''sql''], [[3 / 5, 4 / 5, 0], [0, 0, 1]]))
     [PyStr ''java java java python python python python'', PyStr ''sql''] 2 = [[''python'', ''java''], [''sql'']]"
  by (simp add: extract_keywords_tfidf_def doc_keywords_def argsort_def py_slice_to_def Let_def)

theorem extract_keywords_tfidf_invariants_witness:
  "(0::int) \<le> 2
   \<and> extract_keywords_tfidf (\<lambda>docs. Some ([''java'', ''python'', ''sql''], [[3 / 5, 4 / 5, 0], [0, 0, 1]]))
        [PyStr ''java java java python python python python'', PyStr ''sql''] 2 = [[''python'', ''java''], [''sql'']]
   \<and> distinct (extract_keywords_tfidf
        (\<lambda>docs. Some ([''java'', ''python'', ''sql''], [[3 / 5, 4 / 5, 0], [0, 0, 1]]))
        [PyStr ''java java java python python python python'', PyStr ''sql''] 2 ! 0)
   \<and> int (length (extract_keywords_tfidf
        (\<lambda>docs. Some ([''java'', ''python'', ''sql''], [[3 / 5, 4 / 5, 0], [0, 0, 1]]))
        [PyStr ''java java java python python python python'', PyStr ''sql''] 2 ! 0)) \<le> 2
   \<and> sorted_wrt (\<lambda>a b. a \<ge> b)
        (map (\<lambda>k. the (map_of (zip [''java'', ''python'', ''sql''] ([[3 / 5, 4 / 5, 0 :: real], [0, 0, 1]] ! 0)) k))
           (extract_keywords_tfidf
              (\<lambda>docs. Some ([''java'', ''python'', ''sql''], [[3 / 5, 4 / 5, 0], [0, 0, 1]]))
              [PyStr ''java java java python python python python'', PyStr ''sql''] 2 ! 0))"
proof -
  have wf: "\<forall>names matrix.
      (\<lambda>docs. Some ([''java'', ''python'', ''sql''], [[3 / 5, 4 / 5, 0 :: real], [0, 0, 1]]))
        (map str_of [PyStr ''java java java python python python python'', PyStr ''sql'']) = Some (names, matrix) \<longrightarrow>
      distinct names \<and> (\<forall>row \<in> set matrix. length row = length names)"
    by auto
  have len: "0 < length (extract_keywords_tfidf
        (\<lambda>docs. Some ([''java'', ''python'', ''sql''], [[3 / 5, 4 / 5, 0], [0, 0, 1]]))
        [PyStr ''java java java python python python python'', PyStr ''sql''] 2)"
    by (simp add: extract_example)
  have "(0::int) \<le> 2" by simp
  from extract_keywords_tfidf_invariants [OF this wf len] extract_example
  show ?thesis by simp
qed

text \<open>
  Claim C8 as stated, for every \<open>top_n\<close>, fails for a negative one: the slice
  \<^verbatim>\<open>sorted_indices[:-1]\<close> drops the last index only, and the first document gets two
  keywords, more than \<open>top_n = - 1\<close>.
\<close>

theorem extract_keywords_tfidf_negative_top_n_counterexample:
  "extract_keywords_tfidf (\<lambda>docs. Some ([''java'', ''python'', ''sql''], [[3 / 5, 4 / 5, 0], [0, 0, 1]]))
     [PyStr ''java java java python python python python'', PyStr ''sql''] (- 1) = [[''python'', ''java''], [''sql'']]
   \<and> \<not> int (length [''python'', ''java'']) \<le> - 1"
  by (simp add: extract_keywords_tfidf_def doc_keywords_def argsort_def py_slice_to_def Let_def)

section \<open>Properties of the text processor\<close>

































end
